theory Spec2Isabelle
  imports Main
begin

section \<open>Request data: parsed JSON values and the Python operations used on them\<close>

text \<open>
  \<open>request.get_json()\<close> hands the handlers a parsed JSON value. A float is kept as a
  mantissa and a binary exponent; a JSON object is the parsed dictionary, kept as an
  association list in which the first binding of a key is the one the dictionary holds.
\<close>

datatype json =
    JNull
  | JBool bool
  | JInt int
  | JFloat int int
  | JStr string
  | JArr "json list"
  | JObj "(string \<times> json) list"

datatype exn = TypeError | KeyError | OverflowError

text \<open>Python truthiness, as tested by \<open>not data\<close>.\<close>

fun truthy :: "json \<Rightarrow> bool" where
  "truthy JNull = False"
| "truthy (JBool b) = b"
| "truthy (JInt n) = (n \<noteq> 0)"
| "truthy (JFloat m e) = (m \<noteq> 0)"
| "truthy (JStr s) = (s \<noteq> [])"
| "truthy (JArr xs) = (xs \<noteq> [])"
| "truthy (JObj kvs) = (kvs \<noteq> [])"

fun starts_with :: "string \<Rightarrow> string \<Rightarrow> bool" where
  "starts_with [] s = True"
| "starts_with (c # cs) [] = False"
| "starts_with (c # cs) (d # ds) = (c = d \<and> starts_with cs ds)"

fun has_substr :: "string \<Rightarrow> string \<Rightarrow> bool" where
  "has_substr k [] = (k = [])"
| "has_substr k (c # cs) = (starts_with k (c # cs) \<or> has_substr k cs)"

text \<open>
  \<open>k in data\<close>: key membership in a dictionary, element membership in a list, substring
  test on a string, and a TypeError on every value that is not a container.
\<close>

fun py_in :: "string \<Rightarrow> json \<Rightarrow> exn + bool" where
  "py_in k (JObj kvs) = Inr (k \<in> set (map fst kvs))"
| "py_in k (JArr xs) = Inr (JStr k \<in> set xs)"
| "py_in k (JStr s) = Inr (has_substr k s)"
| "py_in k JNull = Inl TypeError"
| "py_in k (JBool b) = Inl TypeError"
| "py_in k (JInt n) = Inl TypeError"
| "py_in k (JFloat m e) = Inl TypeError"

text \<open>\<open>all(k in data for k in ks)\<close>: left to right, stopping at the first False.\<close>

fun py_all_in :: "string list \<Rightarrow> json \<Rightarrow> exn + bool" where
  "py_all_in [] d = Inr True"
| "py_all_in (k # ks) d =
     (case py_in k d of
        Inl e \<Rightarrow> Inl e
      | Inr False \<Rightarrow> Inr False
      | Inr True \<Rightarrow> py_all_in ks d)"

text \<open>\<open>data[k]\<close> with a string key: only a dictionary can be indexed by a string.\<close>

fun getitem :: "json \<Rightarrow> string \<Rightarrow> exn + json" where
  "getitem (JObj kvs) k = (case map_of kvs k of None \<Rightarrow> Inl KeyError | Some v \<Rightarrow> Inr v)"
| "getitem JNull k = Inl TypeError"
| "getitem (JBool b) k = Inl TypeError"
| "getitem (JInt n) k = Inl TypeError"
| "getitem (JFloat m e) k = Inl TypeError"
| "getitem (JStr s) k = Inl TypeError"
| "getitem (JArr xs) k = Inl TypeError"

text \<open>
  \<open>isinstance(v, int)\<close>: Python's \<open>bool\<close> is a subclass of \<open>int\<close>, so a boolean is an
  instance too; \<open>int_value\<close> is the integer such a value compares as (\<open>True == 1\<close>).
\<close>

fun isinstance_int :: "json \<Rightarrow> bool" where
  "isinstance_int (JInt n) = True"
| "isinstance_int (JBool b) = True"
| "isinstance_int JNull = False"
| "isinstance_int (JFloat m e) = False"
| "isinstance_int (JStr s) = False"
| "isinstance_int (JArr xs) = False"
| "isinstance_int (JObj kvs) = False"

fun int_value :: "json \<Rightarrow> int" where
  "int_value (JInt n) = n"
| "int_value (JBool b) = (if b then 1 else 0)"
| "int_value JNull = 0"
| "int_value (JFloat m e) = 0"
| "int_value (JStr s) = 0"
| "int_value (JArr xs) = 0"
| "int_value (JObj kvs) = 0"

section \<open>The email pattern\<close>

text \<open>
  The pattern of \<open>is_valid_email\<close> is a sequence of items, each a single-character
  matcher, some under \<open>+\<close>. A character class is a list of inclusive ranges. \<open>AnyChar\<close>
  is the regular expression \<open>.\<close>, which matches every character but the newline.
\<close>

datatype atom = Lit char | AnyChar | Class "(char \<times> char) list"

datatype item = One atom | Plus atom

definition in_range :: "char \<Rightarrow> char \<times> char \<Rightarrow> bool" where
  "in_range c r = ((of_char (fst r) :: nat) \<le> of_char c \<and> (of_char c :: nat) \<le> of_char (snd r))"

fun atom_ok :: "atom \<Rightarrow> char \<Rightarrow> bool" where
  "atom_ok (Lit d) c = (c = d)"
| "atom_ok AnyChar c = (c \<noteq> CHR 0x0A)"
| "atom_ok (Class rs) c = list_ex (in_range c) rs"

text \<open>
  \<open>re.match\<close> of an anchored pattern \<open>^items$\<close>: the items are matched from the start of
  the string with backtracking over the length of each \<open>+\<close>; \<open>$\<close> holds at the end of
  the string and just before a newline that ends the string.
\<close>

fun re_match :: "item list \<Rightarrow> string \<Rightarrow> bool" where
  "re_match [] s = (s = [] \<or> s = [CHR 0x0A])"
| "re_match (One a # r) [] = False"
| "re_match (One a # r) (c # cs) = (atom_ok a c \<and> re_match r cs)"
| "re_match (Plus a # r) [] = False"
| "re_match (Plus a # r) (c # cs) =
     (atom_ok a c \<and> (re_match (Plus a # r) cs \<or> re_match r cs))"

definition alnum :: "(char \<times> char) list" where
  "alnum = [(CHR ''a'', CHR ''z''), (CHR ''A'', CHR ''Z''), (CHR ''0'', CHR ''9'')]"

definition single :: "char \<Rightarrow> char \<times> char" where
  "single c = (c, c)"

text \<open>
  The source pattern is the raw string
  \<^verbatim>\<open>^[a-zA-Z0-9_.+-]+@[a-zA-Z0-9-]+\\.[a-zA-Z0-9-.]+$\<close>:
  in a raw string the two backslashes reach the regular-expression parser as they are,
  where they denote one literal backslash character (code 0x5C); the dot after them
  is then an unescaped \<open>.\<close>.
\<close>

definition email_pattern :: "item list" where
  "email_pattern =
     [Plus (Class (alnum @ [single CHR ''_'', single CHR ''.'', single CHR ''+'', single CHR ''-''])),
      One (Lit CHR ''@''),
      Plus (Class (alnum @ [single CHR ''-''])),
      One (Lit CHR 0x5C),
      One AnyChar,
      Plus (Class (alnum @ [single CHR ''-'', single CHR ''.'']))]"

text \<open>\<open>re.match\<close> raises TypeError on an argument that is not a string.\<close>

fun is_valid_email :: "json \<Rightarrow> exn + bool" where
  "is_valid_email (JStr s) = Inr (re_match email_pattern s)"
| "is_valid_email JNull = Inl TypeError"
| "is_valid_email (JBool b) = Inl TypeError"
| "is_valid_email (JInt n) = Inl TypeError"
| "is_valid_email (JFloat m e) = Inl TypeError"
| "is_valid_email (JArr xs) = Inl TypeError"
| "is_valid_email (JObj kvs) = Inl TypeError"

text \<open>
  The pattern as the specification words it: the same three character classes, with a
  literal dot between the second and the third.
\<close>

definition spec_email_pattern :: "item list" where
  "spec_email_pattern =
     [Plus (Class (alnum @ [single CHR ''_'', single CHR ''.'', single CHR ''+'', single CHR ''-''])),
      One (Lit CHR ''@''),
      Plus (Class (alnum @ [single CHR ''-''])),
      One (Lit CHR ''.''),
      Plus (Class (alnum @ [single CHR ''-'', single CHR ''.'']))]"

section \<open>The Record Store and the Cache Layer\<close>

text \<open>
  The table behind the \<open>User\<close> class, on the database the source configures by default
  (SQLite). The columns \<open>id\<close>, \<open>name\<close> and \<open>email\<close> hold text and \<open>age\<close> holds a 64-bit
  integer. The handlers never inspect the name of a request, so what the \<open>name\<close> column
  does with each kind of value is part of the behaviour:

  \<^item> a string is stored as it is (the lengths 36, 80 and 120 are not enforced);
  \<^item> an integer that fits 64 bits is stored as its decimal text, and a boolean, which
    is bound as the integer 1 or 0, as \<open>1\<close> or \<open>0\<close>;
  \<^item> a float is stored as the text the database writes for it; the characters of
    that text are not computed here, \<open>FloatText m e\<close> stands for them;
  \<^item> \<open>null\<close> is bound as NULL, which the column refuses (\<open>nullable=False\<close>);
  \<^item> a list or an object cannot be bound: the driver's error reaches the handler as
    a \<open>SQLAlchemyError\<close> that is not an \<open>IntegrityError\<close>;
  \<^item> an integer that does not fit 64 bits makes the driver raise \<open>OverflowError\<close>,
    which is no \<open>SQLAlchemyError\<close> and escapes the handler.
\<close>

datatype col_text = Text string | FloatText int int

record user =
  id_col :: string
  name :: col_text
  email :: string
  age :: int

definition digit :: "nat \<Rightarrow> char" where
  "digit d = ''0123456789'' ! d"

fun dec_nat :: "nat \<Rightarrow> string" where
  "dec_nat n = (if n < 10 then [digit n] else dec_nat (n div 10) @ [digit (n mod 10)])"

declare dec_nat.simps [simp del]

definition dec_int :: "int \<Rightarrow> string" where
  "dec_int n = (if n < 0 then CHR ''-'' # dec_nat (nat (- n)) else dec_nat (nat n))"

definition fits_int64 :: "int \<Rightarrow> bool" where
  "fits_int64 n = (- (2 ^ 63) \<le> n \<and> n < 2 ^ 63)"

text \<open>
  Binding a value as a parameter of a statement: \<open>Bound\<close> with what the column will be
  given, or one of the two failures of the driver. For the name, \<open>Bound None\<close> is NULL.
\<close>

datatype 'a bind = Bound 'a | Unsupported | TooLarge

fun bind_name :: "json \<Rightarrow> col_text option bind" where
  "bind_name JNull = Bound None"
| "bind_name (JBool b) = Bound (Some (Text (if b then ''1'' else ''0'')))"
| "bind_name (JInt n) = (if fits_int64 n then Bound (Some (Text (dec_int n))) else TooLarge)"
| "bind_name (JFloat m e) = Bound (Some (FloatText m e))"
| "bind_name (JStr s) = Bound (Some (Text s))"
| "bind_name (JArr xs) = Unsupported"
| "bind_name (JObj kvs) = Unsupported"

definition bind_age :: "int \<Rightarrow> int bind" where
  "bind_age a = (if fits_int64 a then Bound a else TooLarge)"

text \<open>
  The state the handlers share: the committed rows of the table, in insertion order, and
  the cache, which maps a key to the time-to-live it was stored with and the cached
  entity. The cache holds the entity itself where the source holds its \<open>json.dumps\<close>
  text, which \<open>json.loads\<close> turns back into the same dictionary; a cached text is never
  empty, so a present entry always passes the test \<open>if cached_user\<close>. An entry that has
  expired is an absent one. The calls on the cache client and the queries that read the
  table are taken to succeed; a failing commit is modelled below.
\<close>

record world =
  db :: "user list"
  cache :: "string \<rightharpoonup> nat \<times> user"

text \<open>Every call a handler makes on the database session or on the cache client.\<close>

datatype effect =
    DbQuery string
  | DbQueryAll
  | DbAdd string
  | DbDelete string
  | DbCommit
  | DbRollback
  | CacheGet string
  | CacheSetex string nat
  | CacheDelete string

datatype body = Entity user | Listing "user list" | Error string | Message string

text \<open>
  A handler answers with a status and a body, or lets an exception escape (which the
  framework turns into a 500 of its own).
\<close>

datatype response = Resp nat body | Unhandled exn

definition CACHE_TIMEOUT :: nat where
  "CACHE_TIMEOUT = 300"

definition cache_key :: "string \<Rightarrow> string" where
  "cache_key i = ''user:'' @ i"

definition find_user :: "string \<Rightarrow> user list \<Rightarrow> user option" where
  "find_user i rows = find (\<lambda>r. id_col r = i) rows"

text \<open>
  A commit sends the pending statement. Its parameters are bound first, in the order
  of the columns, and the first value that cannot be bound ends the commit. Then the
  statement is executed: whether the database refuses it for a reason that is not a
  constraint (locked, read-only, connection lost) is a choice of the environment, given
  to each request as \<open>db_env\<close>; otherwise the constraints declared on the \<open>User\<close> class
  decide (primary key \<open>id\<close>, \<open>unique\<close> on \<open>email\<close>, \<open>nullable=False\<close> on \<open>name\<close>), and a
  violation raises \<open>IntegrityError\<close>. \<open>Committed rows x\<close> is the table after the commit
  together with what the handler reads afterwards: for an insert and an update the row of
  the object as the table now holds it, which is what the attributes \<open>user.id\<close>,
  \<open>user.name\<close>, \<open>user.email\<close> and \<open>user.age\<close> load when they are read after the commit.
\<close>

datatype db_env = DbUp | DbFailing

datatype 'a commit_result =
    Committed "user list" 'a
  | IntegrityError
  | OtherSQLAlchemyError
  | Uncaught exn

text \<open>
  The insert of \<open>User(id, name, email, age)\<close>: \<open>n\<close> is the name as the request gave it,
  \<open>em\<close> and \<open>a\<close> are the validated email and age.
\<close>

definition commit_insert ::
  "db_env \<Rightarrow> user list \<Rightarrow> string \<Rightarrow> json \<Rightarrow> string \<Rightarrow> int \<Rightarrow> user commit_result" where
  "commit_insert env rows i n em a =
     (case bind_name n of
        Unsupported \<Rightarrow> OtherSQLAlchemyError
      | TooLarge \<Rightarrow> Uncaught OverflowError
      | Bound t \<Rightarrow>
         (case bind_age a of
            Unsupported \<Rightarrow> OtherSQLAlchemyError
          | TooLarge \<Rightarrow> Uncaught OverflowError
          | Bound a' \<Rightarrow>
             if env = DbFailing then OtherSQLAlchemyError
             else (case t of
                     None \<Rightarrow> IntegrityError
                   | Some txt \<Rightarrow>
                      if i \<in> set (map id_col rows) \<or> em \<in> set (map email rows)
                      then IntegrityError
                      else Committed (rows @ [\<lparr>id_col = i, name = txt, email = em, age = a'\<rparr>])
                             \<lparr>id_col = i, name = txt, email = em, age = a'\<rparr>)))"

text \<open>
  The assignments an update has made to the loaded object and not yet sent: for each
  attribute, the value assigned, if any.
\<close>

record changes =
  new_name :: "json option"
  new_email :: "string option"
  new_age :: "int option"

definition no_changes :: changes where
  "no_changes = \<lparr>new_name = None, new_email = None, new_age = None\<rparr>"

text \<open>
  The update of the row \<open>old\<close> by the assigned attributes. Only assigned values are bound;
  the uniqueness of the email is checked, when one was assigned, against the rows of
  the other ids.
\<close>

definition commit_update :: "db_env \<Rightarrow> user list \<Rightarrow> user \<Rightarrow> changes \<Rightarrow> user commit_result" where
  "commit_update env rows old c =
     (case (case new_name c of None \<Rightarrow> Bound (Some (name old)) | Some v \<Rightarrow> bind_name v) of
        Unsupported \<Rightarrow> OtherSQLAlchemyError
      | TooLarge \<Rightarrow> Uncaught OverflowError
      | Bound t \<Rightarrow>
         (case (case new_age c of None \<Rightarrow> Bound (age old) | Some a \<Rightarrow> bind_age a) of
            Unsupported \<Rightarrow> OtherSQLAlchemyError
          | TooLarge \<Rightarrow> Uncaught OverflowError
          | Bound a' \<Rightarrow>
             if env = DbFailing then OtherSQLAlchemyError
             else (case t of
                     None \<Rightarrow> IntegrityError
                   | Some txt \<Rightarrow>
                      if (case new_email c of
                            None \<Rightarrow> False
                          | Some e \<Rightarrow> e \<in> set (map email (filter (\<lambda>r. id_col r \<noteq> id_col old) rows)))
                      then IntegrityError
                      else Committed
                             (map (\<lambda>r. if id_col r = id_col old
                                       then \<lparr>id_col = id_col old, name = txt,
                                             email = (case new_email c of None \<Rightarrow> email old | Some e \<Rightarrow> e),
                                             age = a'\<rparr>
                                       else r) rows)
                             \<lparr>id_col = id_col old, name = txt,
                              email = (case new_email c of None \<Rightarrow> email old | Some e \<Rightarrow> e),
                              age = a'\<rparr>)))"

definition commit_delete :: "db_env \<Rightarrow> user list \<Rightarrow> string \<Rightarrow> unit commit_result" where
  "commit_delete env rows i =
     (if env = DbFailing then OtherSQLAlchemyError
      else Committed (filter (\<lambda>r. id_col r \<noteq> i) rows) ())"

section \<open>The request handlers\<close>

text \<open>
  The part of a handler that runs before the commit ends in one of three ways: it falls
  through with a value, it returns an error response early, or it raises.
\<close>

datatype 'a outcome = Ok 'a | Reply nat string | Raised exn

fun str_value :: "json \<Rightarrow> string" where
  "str_value (JStr s) = s"
| "str_value JNull = []"
| "str_value (JBool b) = []"
| "str_value (JInt n) = []"
| "str_value (JFloat m e) = []"
| "str_value (JArr xs) = []"
| "str_value (JObj kvs) = []"

text \<open>
  \<open>create_user\<close> up to the construction of the \<open>User\<close> object: the checks in the order of
  the source, then the three fields read from the body.
\<close>

definition create_fields :: "json \<Rightarrow> (json \<times> string \<times> int) outcome" where
  "create_fields data =
     (if \<not> truthy data then Reply 400 ''Missing fields''
      else case py_all_in [''name'', ''email'', ''age''] data of
        Inl e \<Rightarrow> Raised e
      | Inr False \<Rightarrow> Reply 400 ''Missing fields''
      | Inr True \<Rightarrow>
         (case getitem data ''email'' of
            Inl e \<Rightarrow> Raised e
          | Inr em \<Rightarrow>
             (case is_valid_email em of
                Inl e \<Rightarrow> Raised e
              | Inr False \<Rightarrow> Reply 400 ''Invalid email''
              | Inr True \<Rightarrow>
                 (case getitem data ''age'' of
                    Inl e \<Rightarrow> Raised e
                  | Inr a \<Rightarrow>
                     if \<not> isinstance_int a \<or> int_value a \<le> 0
                     then Reply 400 ''Age must be a positive integer''
                     else (case getitem data ''name'' of
                             Inl e \<Rightarrow> Raised e
                           | Inr n \<Rightarrow> Ok (n, str_value em, int_value a))))))"

text \<open>
  \<open>new_id\<close> is the text of the identifier that \<open>uuid.uuid4()\<close> draws for this request.
  The answer and the cache entry are built from the attributes of the object read after
  the commit, that is from the stored row. An exception that is not a \<open>SQLAlchemyError\<close>
  passes both handlers; the session is discarded with the request.
\<close>

definition create_user :: "db_env \<Rightarrow> string \<Rightarrow> json \<Rightarrow> world \<Rightarrow> response \<times> effect list \<times> world" where
  "create_user env new_id data w =
     (case create_fields data of
        Raised e \<Rightarrow> (Unhandled e, [], w)
      | Reply c m \<Rightarrow> (Resp c (Error m), [], w)
      | Ok (n, em, a) \<Rightarrow>
         (case commit_insert env (db w) new_id n em a of
            Committed rows u \<Rightarrow>
              (Resp 201 (Entity u),
               [DbAdd new_id, DbCommit, CacheSetex (cache_key (id_col u)) CACHE_TIMEOUT],
               w\<lparr>db := rows, cache := (cache w)(cache_key (id_col u) \<mapsto> (CACHE_TIMEOUT, u))\<rparr>)
          | IntegrityError \<Rightarrow>
              (Resp 400 (Error ''Email already exists''), [DbAdd new_id, DbCommit, DbRollback], w)
          | OtherSQLAlchemyError \<Rightarrow>
              (Resp 500 (Error ''Database error''), [DbAdd new_id, DbCommit, DbRollback], w)
          | Uncaught e \<Rightarrow> (Unhandled e, [DbAdd new_id, DbCommit], w)))"

definition get_user :: "string \<Rightarrow> world \<Rightarrow> response \<times> effect list \<times> world" where
  "get_user user_id w =
     (case cache w (cache_key user_id) of
        Some (ttl, cached_user) \<Rightarrow> (Resp 200 (Entity cached_user), [CacheGet (cache_key user_id)], w)
      | None \<Rightarrow>
         (case find_user user_id (db w) of
            None \<Rightarrow>
              (Resp 404 (Error ''User not found''),
               [CacheGet (cache_key user_id), DbQuery user_id], w)
          | Some u \<Rightarrow>
              (Resp 200 (Entity u),
               [CacheGet (cache_key user_id), DbQuery user_id,
                CacheSetex (cache_key (id_col u)) CACHE_TIMEOUT],
               w\<lparr>cache := (cache w)(cache_key (id_col u) \<mapsto> (CACHE_TIMEOUT, u))\<rparr>)))"

text \<open>The three conditional assignments of \<open>update_user\<close>, in the order of the source.\<close>

definition patch_name :: "json \<Rightarrow> changes \<Rightarrow> changes outcome" where
  "patch_name data c =
     (case py_in ''name'' data of
        Inl e \<Rightarrow> Raised e
      | Inr False \<Rightarrow> Ok c
      | Inr True \<Rightarrow>
         (case getitem data ''name'' of
            Inl e \<Rightarrow> Raised e
          | Inr v \<Rightarrow> Ok (c\<lparr>new_name := Some v\<rparr>)))"

definition patch_email :: "json \<Rightarrow> changes \<Rightarrow> changes outcome" where
  "patch_email data c =
     (case py_in ''email'' data of
        Inl e \<Rightarrow> Raised e
      | Inr False \<Rightarrow> Ok c
      | Inr True \<Rightarrow>
         (case getitem data ''email'' of
            Inl e \<Rightarrow> Raised e
          | Inr v \<Rightarrow>
             (case is_valid_email v of
                Inl e \<Rightarrow> Raised e
              | Inr False \<Rightarrow> Reply 400 ''Invalid email''
              | Inr True \<Rightarrow> Ok (c\<lparr>new_email := Some (str_value v)\<rparr>))))"

definition patch_age :: "json \<Rightarrow> changes \<Rightarrow> changes outcome" where
  "patch_age data c =
     (case py_in ''age'' data of
        Inl e \<Rightarrow> Raised e
      | Inr False \<Rightarrow> Ok c
      | Inr True \<Rightarrow>
         (case getitem data ''age'' of
            Inl e \<Rightarrow> Raised e
          | Inr v \<Rightarrow>
             if \<not> isinstance_int v \<or> int_value v \<le> 0
             then Reply 400 ''Age must be a positive integer''
             else Ok (c\<lparr>new_age := Some (int_value v)\<rparr>)))"

definition update_fields :: "json \<Rightarrow> changes outcome" where
  "update_fields data =
     (case patch_name data no_changes of
        Raised e \<Rightarrow> Raised e
      | Reply c m \<Rightarrow> Reply c m
      | Ok c1 \<Rightarrow>
         (case patch_email data c1 of
            Raised e \<Rightarrow> Raised e
          | Reply c m \<Rightarrow> Reply c m
          | Ok c2 \<Rightarrow> patch_age data c2))"

text \<open>
  An early return or an escaping exception leaves the assignments made so far in the
  request's session, which is discarded with the request: the committed rows stay. The
  answer is built from the attributes of the object read after the commit.
\<close>

definition update_user :: "db_env \<Rightarrow> string \<Rightarrow> json \<Rightarrow> world \<Rightarrow> response \<times> effect list \<times> world" where
  "update_user env user_id data w =
     (if \<not> truthy data then (Resp 400 (Error ''No data provided''), [], w)
      else case find_user user_id (db w) of
        None \<Rightarrow> (Resp 404 (Error ''User not found''), [DbQuery user_id], w)
      | Some user \<Rightarrow>
         (case update_fields data of
            Raised e \<Rightarrow> (Unhandled e, [DbQuery user_id], w)
          | Reply c m \<Rightarrow> (Resp c (Error m), [DbQuery user_id], w)
          | Ok c \<Rightarrow>
             (case commit_update env (db w) user c of
                Committed rows u \<Rightarrow>
                  (Resp 200 (Entity u),
                   [DbQuery user_id, DbCommit, CacheDelete (cache_key (id_col u))],
                   w\<lparr>db := rows, cache := (cache w)(cache_key (id_col u) := None)\<rparr>)
              | IntegrityError \<Rightarrow>
                  (Resp 400 (Error ''Email already exists''),
                   [DbQuery user_id, DbCommit, DbRollback], w)
              | OtherSQLAlchemyError \<Rightarrow>
                  (Resp 500 (Error ''Database error''),
                   [DbQuery user_id, DbCommit, DbRollback], w)
              | Uncaught e \<Rightarrow> (Unhandled e, [DbQuery user_id, DbCommit], w))))"

text \<open>
  \<open>delete_user\<close> has one handler, for \<open>SQLAlchemyError\<close>, which is also the base class of
  \<open>IntegrityError\<close>.
\<close>

definition delete_user :: "db_env \<Rightarrow> string \<Rightarrow> world \<Rightarrow> response \<times> effect list \<times> world" where
  "delete_user env user_id w =
     (case find_user user_id (db w) of
        None \<Rightarrow> (Resp 404 (Error ''User not found''), [DbQuery user_id], w)
      | Some user \<Rightarrow>
         (case commit_delete env (db w) (id_col user) of
            Committed rows x \<Rightarrow>
              (Resp 200 (Message ''User deleted successfully''),
               [DbQuery user_id, DbDelete (id_col user), DbCommit, CacheDelete (cache_key (id_col user))],
               w\<lparr>db := rows, cache := (cache w)(cache_key (id_col user) := None)\<rparr>)
          | IntegrityError \<Rightarrow>
              (Resp 500 (Error ''Database error''),
               [DbQuery user_id, DbDelete (id_col user), DbCommit, DbRollback], w)
          | OtherSQLAlchemyError \<Rightarrow>
              (Resp 500 (Error ''Database error''),
               [DbQuery user_id, DbDelete (id_col user), DbCommit, DbRollback], w)
          | Uncaught e \<Rightarrow>
              (Unhandled e, [DbQuery user_id, DbDelete (id_col user), DbCommit], w)))"

definition get_all_users :: "world \<Rightarrow> response \<times> effect list \<times> world" where
  "get_all_users w = (Resp 200 (Listing (db w)), [DbQueryAll], w)"

section \<open>Sample data\<close>

text \<open>
  An address the pattern of the source accepts (it carries the backslash the pattern asks
  for), two rows, a create request for the first of them, and the state with no row and
  no cache entry.
\<close>

definition ok_email :: string where
  "ok_email = ''ann@site'' @ CHR 0x5C # ''.org''"

definition ann :: user where
  "ann = \<lparr>id_col = ''u1'', name = Text ''Ann'', email = ok_email, age = 30\<rparr>"

definition bob :: user where
  "bob = \<lparr>id_col = ''u2'', name = Text ''Bob'', email = ''bob@site'' @ CHR 0x5C # ''.org'', age = 41\<rparr>"

definition ann_request :: json where
  "ann_request = JObj [(''name'', JStr ''Ann''), (''email'', JStr ok_email), (''age'', JInt 30)]"

definition empty_world :: world where
  "empty_world = \<lparr>db = [], cache = Map.empty\<rparr>"

section \<open>Unfolding sets and lookup lemmas\<close>

lemmas pattern_defs = email_pattern_def spec_email_pattern_def alnum_def single_def in_range_def

lemmas bind_defs = bind_age_def fits_int64_def dec_int_def digit_def dec_nat.simps

lemmas create_defs =
  create_user_def create_fields_def commit_insert_def CACHE_TIMEOUT_def cache_key_def

lemmas update_defs =
  update_user_def update_fields_def patch_name_def patch_email_def patch_age_def no_changes_def
  commit_update_def find_user_def

lemmas sample_defs = ok_email_def ann_def bob_def ann_request_def empty_world_def

lemma find_user_id: "find_user i rows = Some u \<Longrightarrow> id_col u = i"
  by (auto simp: find_user_def find_Some_iff)

lemma find_user_mem: "find_user i rows = Some u \<Longrightarrow> u \<in> set rows"
  by (auto simp: find_user_def find_Some_iff)

lemma find_user_None: "find_user i rows = None \<longleftrightarrow> i \<notin> set (map id_col rows)"
  by (auto simp: find_user_def find_None_iff)

lemma find_user_filter: "find_user i (filter (\<lambda>r. id_col r \<noteq> i) rows) = None"
  by (simp add: find_user_def find_None_iff)

lemma find_user_replace:
  "find_user i rows = Some old \<Longrightarrow> id_col u = i \<Longrightarrow>
   find_user i (map (\<lambda>r. if id_col r = i then u else r) rows) = Some u"
  by (induction rows) (auto simp: find_user_def split: if_splits)

lemma bind_name_text: "bind_name (JStr s) = Bound (Some t) \<longleftrightarrow> t = Text s"
  by auto

section \<open>What the handlers do, case by case\<close>

text \<open>
  A key the membership test does not find cannot be read; so an attribute is assigned
  exactly when the read \<open>data[k]\<close> succeeds, and then to the value read.
\<close>

lemma py_in_False_getitem: "py_in k d = Inr False \<Longrightarrow> \<exists>e. getitem d k = Inl e"
  by (cases d) (auto simp: map_of_eq_None_iff image_iff split: option.splits)

lemma patch_name_Ok:
  "patch_name data c = Ok c' \<Longrightarrow>
     c' = c\<lparr>new_name := (case getitem data ''name'' of Inr v \<Rightarrow> Some v | Inl e \<Rightarrow> new_name c)\<rparr>"
  by (auto simp: patch_name_def split: sum.splits bool.splits dest: py_in_False_getitem)

lemma patch_email_Ok:
  "patch_email data c = Ok c' \<Longrightarrow>
     c' = c\<lparr>new_email := (case getitem data ''email'' of
                             Inr v \<Rightarrow> Some (str_value v) | Inl e \<Rightarrow> new_email c)\<rparr>"
  by (auto simp: patch_email_def split: sum.splits bool.splits dest: py_in_False_getitem)

lemma patch_age_Ok:
  "patch_age data c = Ok c' \<Longrightarrow>
     c' = c\<lparr>new_age := (case getitem data ''age'' of
                           Inr v \<Rightarrow> Some (int_value v) | Inl e \<Rightarrow> new_age c)\<rparr>"
  by (auto simp: patch_age_def split: sum.splits bool.splits if_splits dest: py_in_False_getitem)

lemma update_fields_Ok:
  assumes "update_fields data = Ok c"
  shows "new_name c = (case getitem data ''name'' of Inr v \<Rightarrow> Some v | Inl e \<Rightarrow> None)"
    and "new_email c = (case getitem data ''email'' of Inr v \<Rightarrow> Some (str_value v) | Inl e \<Rightarrow> None)"
    and "new_age c = (case getitem data ''age'' of Inr v \<Rightarrow> Some (int_value v) | Inl e \<Rightarrow> None)"
proof -
  from assms obtain c1 c2 where
    s: "patch_name data no_changes = Ok c1" "patch_email data c1 = Ok c2" "patch_age data c2 = Ok c"
    by (auto simp: update_fields_def split: outcome.splits)
  have n: "new_name c = new_name c1" "new_email c = new_email c2" "new_email c1 = None"
          "new_age c1 = None" "new_age c2 = None"
    using patch_name_Ok [OF s(1)] patch_email_Ok [OF s(2)] patch_age_Ok [OF s(3)]
    by (simp_all add: no_changes_def)
  show "new_name c = (case getitem data ''name'' of Inr v \<Rightarrow> Some v | Inl e \<Rightarrow> None)"
    using patch_name_Ok [OF s(1)] n by (simp add: no_changes_def split: sum.splits)
  show "new_email c = (case getitem data ''email'' of Inr v \<Rightarrow> Some (str_value v) | Inl e \<Rightarrow> None)"
    using patch_email_Ok [OF s(2)] n by (simp split: sum.splits)
  show "new_age c = (case getitem data ''age'' of Inr v \<Rightarrow> Some (int_value v) | Inl e \<Rightarrow> None)"
    using patch_age_Ok [OF s(3)] n by (simp split: sum.splits)
qed

lemma update_fields_Reply:
  "update_fields data = Reply c m \<Longrightarrow>
     c = 400 \<and> (m = ''Invalid email'' \<or> m = ''Age must be a positive integer'')"
  by (auto simp: update_fields_def patch_name_def patch_email_def patch_age_def
           split: outcome.splits sum.splits bool.splits if_splits)

lemma commit_update_Committed:
  assumes "commit_update env rows old c = Committed rows' u"
  shows "env = DbUp" and "id_col u = id_col old"
    and "case new_name c of None \<Rightarrow> name u = name old | Some v \<Rightarrow> bind_name v = Bound (Some (name u))"
    and "email u = (case new_email c of None \<Rightarrow> email old | Some e \<Rightarrow> e)"
    and "age u = (case new_age c of None \<Rightarrow> age old | Some a \<Rightarrow> a)"
    and "rows' = map (\<lambda>r. if id_col r = id_col old then u else r) rows"
  using assms
  by (cases env; auto simp: commit_update_def bind_age_def
        split: bind.splits option.splits if_splits)+

lemma update_user_cases:
  assumes "update_user env i data w = (r, tr, w')"
  shows "(\<exists>old c u. r = Resp 200 (Entity u) \<and> truthy data \<and> find_user i (db w) = Some old
            \<and> update_fields data = Ok c
            \<and> commit_update env (db w) old c = Committed (db w') u
            \<and> tr = [DbQuery i, DbCommit, CacheDelete (cache_key i)]
            \<and> w' = w\<lparr>db := db w', cache := (cache w)(cache_key i := None)\<rparr>)
       \<or> ((\<forall>u. r \<noteq> Resp 200 (Entity u)) \<and> w' = w)"
proof (cases "truthy data")
  case False
  then show ?thesis using assms by (auto simp: update_user_def)
next
  case t: True
  show ?thesis
  proof (cases "find_user i (db w)")
    case None
    then show ?thesis using assms t by (auto simp: update_user_def)
  next
    case (Some old)
    show ?thesis
    proof (cases "update_fields data")
      case (Ok c)
      show ?thesis
      proof (cases "commit_update env (db w) old c")
        case (Committed rows u)
        have idu: "id_col u = i"
          using commit_update_Committed(2) [OF Committed] find_user_id [OF Some] by simp
        show ?thesis
          using assms t Some Ok Committed idu by (auto simp: update_user_def)
      next
        case IntegrityError
        then show ?thesis using assms t Some Ok by (auto simp: update_user_def)
      next
        case OtherSQLAlchemyError
        then show ?thesis using assms t Some Ok by (auto simp: update_user_def)
      next
        case (Uncaught e)
        then show ?thesis using assms t Some Ok by (auto simp: update_user_def)
      qed
    next
      case (Reply c m)
      then show ?thesis using assms t Some by (auto simp: update_user_def)
    next
      case (Raised e)
      then show ?thesis using assms t Some by (auto simp: update_user_def)
    qed
  qed
qed

lemma update_user_400:
  assumes "update_user env i data w = (Resp 400 (Error m), tr, w')"
  shows "w' = w \<and>
         ((m = ''No data provided'' \<and> \<not> truthy data \<and> tr = [])
          \<or> ((m = ''Invalid email'' \<or> m = ''Age must be a positive integer'')
              \<and> truthy data \<and> (\<exists>old. find_user i (db w) = Some old) \<and> tr = [DbQuery i])
          \<or> (m = ''Email already exists'' \<and> tr = [DbQuery i, DbCommit, DbRollback]))"
proof (cases "truthy data")
  case False
  then show ?thesis using assms by (auto simp: update_user_def)
next
  case t: True
  show ?thesis
  proof (cases "find_user i (db w)")
    case None
    then show ?thesis using assms t by (auto simp: update_user_def)
  next
    case (Some old)
    show ?thesis
    proof (cases "update_fields data")
      case (Ok c)
      then show ?thesis
        using assms t Some by (auto simp: update_user_def split: commit_result.splits)
    next
      case (Reply c m')
      then show ?thesis
        using assms t Some update_fields_Reply [OF Reply] by (auto simp: update_user_def)
    next
      case (Raised e)
      then show ?thesis using assms t Some by (auto simp: update_user_def)
    qed
  qed
qed

lemma is_valid_email_True:
  "is_valid_email v = Inr True \<Longrightarrow> JStr (str_value v) = v \<and> re_match email_pattern (str_value v)"
  by (cases v) auto

lemma create_fields_Ok:
  "create_fields data = Ok (n, em, a) \<Longrightarrow>
     getitem data ''name'' = Inr n \<and> getitem data ''email'' = Inr (JStr em)
     \<and> re_match email_pattern em
     \<and> (\<exists>v. getitem data ''age'' = Inr v \<and> isinstance_int v \<and> int_value v = a) \<and> 0 < a"
  by (auto simp: create_fields_def split: if_splits sum.splits bool.splits
           dest: is_valid_email_True)

lemma create_fields_Reply:
  "create_fields data = Reply c m \<Longrightarrow>
     c = 400 \<and> m \<in> {''Missing fields'', ''Invalid email'', ''Age must be a positive integer''}"
  by (auto simp: create_fields_def split: if_splits sum.splits bool.splits)

lemma commit_insert_Committed:
  assumes "commit_insert env rows i n em a = Committed rows' u"
  shows "env = DbUp" and "bind_name n = Bound (Some (name u))"
    and "id_col u = i" and "email u = em" and "age u = a"
    and "i \<notin> set (map id_col rows)" and "em \<notin> set (map email rows)"
    and "rows' = rows @ [u]"
  using assms
  by (cases env; auto simp: commit_insert_def bind_age_def
        split: bind.splits option.splits if_splits)+

lemma create_user_cases:
  assumes "create_user env nid data w = (r, tr, w')"
  shows "(\<exists>n em a u. r = Resp 201 (Entity u) \<and> create_fields data = Ok (n, em, a)
            \<and> commit_insert env (db w) nid n em a = Committed (db w') u
            \<and> tr = [DbAdd nid, DbCommit, CacheSetex (cache_key nid) 300]
            \<and> w' = w\<lparr>db := db w', cache := (cache w)(cache_key nid \<mapsto> (300, u))\<rparr>)
       \<or> ((\<forall>u. r \<noteq> Resp 201 (Entity u)) \<and> w' = w
           \<and> (tr = [] \<or> tr = [DbAdd nid, DbCommit, DbRollback] \<or> tr = [DbAdd nid, DbCommit]))"
proof (cases "create_fields data")
  case (Ok f)
  obtain n em a where f: "f = (n, em, a)" by (cases f)
  show ?thesis
  proof (cases "commit_insert env (db w) nid n em a")
    case (Committed rows u)
    have idu: "id_col u = nid" using commit_insert_Committed(3) [OF Committed] .
    show ?thesis
      using assms Ok f Committed idu by (auto simp: create_user_def CACHE_TIMEOUT_def)
  next
    case IntegrityError
    then show ?thesis using assms Ok f by (auto simp: create_user_def)
  next
    case OtherSQLAlchemyError
    then show ?thesis using assms Ok f by (auto simp: create_user_def)
  next
    case (Uncaught e)
    then show ?thesis using assms Ok f by (auto simp: create_user_def)
  qed
next
  case (Reply c m)
  then show ?thesis
    using assms create_fields_Reply [OF Reply] by (auto simp: create_user_def)
next
  case (Raised e)
  then show ?thesis using assms by (auto simp: create_user_def)
qed

lemma create_user_400:
  assumes "create_user env nid data w = (Resp 400 (Error m), tr, w')"
  shows "w' = w \<and>
         ((m \<in> {''Missing fields'', ''Invalid email'', ''Age must be a positive integer''} \<and> tr = [])
          \<or> (m = ''Email already exists'' \<and> tr = [DbAdd nid, DbCommit, DbRollback]))"
proof (cases "create_fields data")
  case (Ok f)
  obtain n em a where f: "f = (n, em, a)" by (cases f)
  show ?thesis
    using assms Ok f
    by (auto simp: create_user_def split: commit_result.splits)
next
  case (Reply c m')
  then show ?thesis
    using assms create_fields_Reply [OF Reply] by (auto simp: create_user_def)
next
  case (Raised e)
  then show ?thesis using assms by (auto simp: create_user_def)
qed

section \<open>What the email pattern of the source accepts\<close>

lemma re_match_Plus_rest:
  "re_match (Plus a # r) s \<Longrightarrow> \<exists>t. re_match r t \<and> set t \<subseteq> set s"
proof (induction s)
  case Nil
  then show ?case by simp
next
  case (Cons c cs)
  then show ?case by (auto simp: subset_insertI2)
qed

lemma re_match_One_rest:
  "re_match (One a # r) s \<Longrightarrow> \<exists>c t. s = c # t \<and> atom_ok a c \<and> re_match r t"
  by (cases s) auto

text \<open>
  Every string the source pattern accepts contains a backslash character, so no address
  written with the usual characters passes \<open>is_valid_email\<close>.
\<close>

lemma accepted_email_has_backslash:
  assumes "re_match email_pattern s"
  shows "CHR 0x5C \<in> set s"
proof -
  from assms obtain t1 where t1: "re_match (tl email_pattern) t1" "set t1 \<subseteq> set s"
    unfolding email_pattern_def using re_match_Plus_rest by fastforce
  from t1(1) obtain c t2 where t2: "t1 = c # t2" "re_match (tl (tl email_pattern)) t2"
    unfolding email_pattern_def using re_match_One_rest by fastforce
  from t2(2) obtain t3 where t3: "re_match (tl (tl (tl email_pattern))) t3" "set t3 \<subseteq> set t2"
    unfolding email_pattern_def using re_match_Plus_rest by fastforce
  from t3(1) obtain d t4 where t4: "t3 = d # t4" "atom_ok (Lit (CHR 0x5C)) d"
    unfolding email_pattern_def using re_match_One_rest by fastforce
  from t4 have "CHR 0x5C \<in> set t3" by simp
  with t3(2) t2(1) t1(2) show ?thesis by auto
qed

section \<open>Email validation (C1)\<close>

text \<open>
  C1. The claim has the email validator accept exactly the strings of the pattern with a
  literal dot before the host suffix, \<open>a@b.c\<close> among them. The source pattern asks for a
  backslash followed by any character at that place: the address \<open>a@b.c\<close>, which the
  pattern of the specification accepts, is rejected by \<open>is_valid_email\<close>, and a create
  request carrying it is answered 400 \<open>Invalid email\<close> with no store touched.
\<close>

theorem is_valid_email_rejects_plain_address:
  "is_valid_email (JStr ''a@b.c'') = Inr False
   \<and> re_match spec_email_pattern ''a@b.c''
   \<and> create_user env new_id
        (JObj [(''name'', JStr ''Ann''), (''email'', JStr ''a@b.c''), (''age'', JInt 30)]) w
       = (Resp 400 (Error ''Invalid email''), [], w)"
  by (simp add: pattern_defs create_defs)

section \<open>Read path (C2)\<close>

text \<open>
  C2. \<open>get_user\<close> probes the cache first. On a hit it returns the cached entity, its only
  effect is the cache read, and the answer is the same whatever rows the store holds. On
  a miss with no row for the id it answers 404 and the state, cache included, is
  unchanged. On a miss with a row it returns the row and stores it under the key of that
  id with a time-to-live of 300 seconds.
\<close>

theorem get_user_cache_aside:
  "(cache w (cache_key i) = Some (t, v) \<longrightarrow>
      get_user i w = (Resp 200 (Entity v), [CacheGet (cache_key i)], w)
      \<and> (\<forall>rows. fst (get_user i (w\<lparr>db := rows\<rparr>)) = Resp 200 (Entity v)))
   \<and> (cache w (cache_key i) = None \<and> find_user i (db w) = None \<longrightarrow>
        get_user i w = (Resp 404 (Error ''User not found''), [CacheGet (cache_key i), DbQuery i], w))
   \<and> (cache w (cache_key i) = None \<and> find_user i (db w) = Some u \<longrightarrow>
        get_user i w = (Resp 200 (Entity u),
                        [CacheGet (cache_key i), DbQuery i, CacheSetex (cache_key i) 300],
                        w\<lparr>cache := (cache w)(cache_key i \<mapsto> (300, u))\<rparr>))"
  by (auto simp: get_user_def CACHE_TIMEOUT_def dest: find_user_id)

text \<open>The three cases of C2 on concrete states: a hit, a miss without a row, a miss with one.\<close>

theorem get_user_cache_aside_witness:
  "get_user ''u1'' \<lparr>db = [], cache = [cache_key ''u1'' \<mapsto> (7, ann)]\<rparr>
     = (Resp 200 (Entity ann), [CacheGet (cache_key ''u1'')],
        \<lparr>db = [], cache = [cache_key ''u1'' \<mapsto> (7, ann)]\<rparr>)
   \<and> get_user ''u1'' empty_world
     = (Resp 404 (Error ''User not found''), [CacheGet (cache_key ''u1''), DbQuery ''u1''], empty_world)
   \<and> get_user ''u1'' \<lparr>db = [ann], cache = Map.empty\<rparr>
     = (Resp 200 (Entity ann),
        [CacheGet (cache_key ''u1''), DbQuery ''u1'', CacheSetex (cache_key ''u1'') 300],
        \<lparr>db = [ann], cache = [cache_key ''u1'' \<mapsto> (300, ann)]\<rparr>)"
proof -
  have h1: "cache \<lparr>db = [], cache = [cache_key ''u1'' \<mapsto> (7, ann)]\<rparr> (cache_key ''u1'') = Some (7, ann)"
    by simp
  have h2: "cache empty_world (cache_key ''u1'') = None \<and> find_user ''u1'' (db empty_world) = None"
    by (simp add: empty_world_def find_user_def)
  have h3: "cache \<lparr>db = [ann], cache = Map.empty\<rparr> (cache_key ''u1'') = None
            \<and> find_user ''u1'' (db \<lparr>db = [ann], cache = Map.empty\<rparr>) = Some ann"
    by (simp add: find_user_def ann_def)
  have e: "\<lparr>db = [ann], cache = Map.empty\<rparr>\<lparr>cache :=
              (cache \<lparr>db = [ann], cache = Map.empty\<rparr>)(cache_key ''u1'' \<mapsto> (300, ann))\<rparr>
           = \<lparr>db = [ann], cache = [cache_key ''u1'' \<mapsto> (300, ann)]\<rparr>"
    by simp
  from get_user_cache_aside [where w = "\<lparr>db = [], cache = [cache_key ''u1'' \<mapsto> (7, ann)]\<rparr>"
          and i = "''u1''" and t = 7 and v = ann] h1
  have c1: "get_user ''u1'' \<lparr>db = [], cache = [cache_key ''u1'' \<mapsto> (7, ann)]\<rparr>
     = (Resp 200 (Entity ann), [CacheGet (cache_key ''u1'')],
        \<lparr>db = [], cache = [cache_key ''u1'' \<mapsto> (7, ann)]\<rparr>)"
    by blast
  from get_user_cache_aside [where w = empty_world and i = "''u1''"] h2
  have c2: "get_user ''u1'' empty_world
     = (Resp 404 (Error ''User not found''), [CacheGet (cache_key ''u1''), DbQuery ''u1''], empty_world)"
    by blast
  from get_user_cache_aside [where w = "\<lparr>db = [ann], cache = Map.empty\<rparr>" and i = "''u1''" and u = ann] h3
  have c3: "get_user ''u1'' \<lparr>db = [ann], cache = Map.empty\<rparr>
     = (Resp 200 (Entity ann),
        [CacheGet (cache_key ''u1''), DbQuery ''u1'', CacheSetex (cache_key ''u1'') 300],
        \<lparr>db = [ann], cache = Map.empty\<rparr>\<lparr>cache :=
              (cache \<lparr>db = [ann], cache = Map.empty\<rparr>)(cache_key ''u1'' \<mapsto> (300, ann))\<rparr>)"
    by blast
  from c1 c2 c3 [unfolded e] show ?thesis by blast
qed

section \<open>Update (C3)\<close>



section \<open>Create (C4)\<close>

text \<open>
  C4. A successful create uses an id no row had and answers with the row as the store now
  holds it: its email and age are those of the request and its name is what the name
  column holds for the name of the request, which for a string is that string. The row
  is appended to the store and written to the cache under its id with a time-to-live of
  300 seconds, and a following \<open>get_user\<close> of the id returns the same entity (from the
  cache). A create that does not succeed leaves the state unchanged and performs no
  cache write.
\<close>

theorem create_user_write_through:
  assumes "create_user env new_id data w = (r, tr, w')"
  shows "(r = Resp 201 (Entity u) \<longrightarrow>
            id_col u = new_id \<and> find_user new_id (db w) = None
            \<and> (\<exists>n. getitem data ''name'' = Inr n \<and> bind_name n = Bound (Some (name u)))
            \<and> (\<forall>s. getitem data ''name'' = Inr (JStr s) \<longrightarrow> name u = Text s)
            \<and> getitem data ''email'' = Inr (JStr (email u))
            \<and> (\<exists>v. getitem data ''age'' = Inr v \<and> int_value v = age u)
            \<and> db w' = db w @ [u]
            \<and> cache w' = (cache w)(cache_key new_id \<mapsto> (300, u))
            \<and> tr = [DbAdd new_id, DbCommit, CacheSetex (cache_key new_id) 300]
            \<and> get_user new_id w' = (Resp 200 (Entity u), [CacheGet (cache_key new_id)], w'))
       \<and> ((\<forall>x. r \<noteq> Resp 201 (Entity x)) \<longrightarrow>
            w' = w \<and> (\<forall>k t. CacheSetex k t \<notin> set tr))"
proof -
  from create_user_cases [OF assms] show ?thesis
  proof
    assume "\<exists>n em a u. r = Resp 201 (Entity u) \<and> create_fields data = Ok (n, em, a)
            \<and> commit_insert env (db w) new_id n em a = Committed (db w') u
            \<and> tr = [DbAdd new_id, DbCommit, CacheSetex (cache_key new_id) 300]
            \<and> w' = w\<lparr>db := db w', cache := (cache w)(cache_key new_id \<mapsto> (300, u))\<rparr>"
    then obtain n em a u' where s:
      "r = Resp 201 (Entity u')" "create_fields data = Ok (n, em, a)"
      "commit_insert env (db w) new_id n em a = Committed (db w') u'"
      "tr = [DbAdd new_id, DbCommit, CacheSetex (cache_key new_id) 300]"
      "w' = w\<lparr>db := db w', cache := (cache w)(cache_key new_id \<mapsto> (300, u'))\<rparr>"
      by blast
    note cm = commit_insert_Committed [OF s(3)]
    note cf = create_fields_Ok [OF s(2)]
    have idu: "id_col u' = new_id" using cm(3) .
    have nm: "\<exists>n. getitem data ''name'' = Inr n \<and> bind_name n = Bound (Some (name u'))"
      using cf cm(2) by blast
    have nmtext: "\<forall>s. getitem data ''name'' = Inr (JStr s) \<longrightarrow> name u' = Text s"
      using nm by auto
    have fl: "getitem data ''email'' = Inr (JStr (email u'))"
             "\<exists>v. getitem data ''age'' = Inr v \<and> int_value v = age u'"
      using cf cm(4) cm(5) by auto
    have new: "find_user new_id (db w) = None"
      using cm(6) by (simp add: find_user_None)
    have rows: "db w' = db w @ [u']"
      using cm(8) .
    have c: "cache w' = (cache w)(cache_key new_id \<mapsto> (300, u'))"
      by (subst s(5)) simp
    have g: "get_user new_id w' = (Resp 200 (Entity u'), [CacheGet (cache_key new_id)], w')"
      using c by (simp add: get_user_def)
    show ?thesis
      using s(1) s(4) idu nm nmtext fl new rows c g by auto
  next
    assume "(\<forall>u. r \<noteq> Resp 201 (Entity u)) \<and> w' = w
           \<and> (tr = [] \<or> tr = [DbAdd new_id, DbCommit, DbRollback] \<or> tr = [DbAdd new_id, DbCommit])"
    then show ?thesis by auto
  qed
qed

text \<open>Create on the empty state, then read back.\<close>

theorem create_user_write_through_witness:
  "create_user DbUp ''u1'' ann_request empty_world
     = (Resp 201 (Entity ann), [DbAdd ''u1'', DbCommit, CacheSetex (cache_key ''u1'') 300],
        \<lparr>db = [ann], cache = [cache_key ''u1'' \<mapsto> (300, ann)]\<rparr>)
   \<and> get_user ''u1'' \<lparr>db = [ann], cache = [cache_key ''u1'' \<mapsto> (300, ann)]\<rparr>
     = (Resp 200 (Entity ann), [CacheGet (cache_key ''u1'')],
        \<lparr>db = [ann], cache = [cache_key ''u1'' \<mapsto> (300, ann)]\<rparr>)"
proof -
  let ?w' = "\<lparr>db = [ann], cache = [cache_key ''u1'' \<mapsto> (300, ann)]\<rparr>"
  have h: "create_user DbUp ''u1'' ann_request empty_world
     = (Resp 201 (Entity ann), [DbAdd ''u1'', DbCommit, CacheSetex (cache_key ''u1'') 300], ?w')"
    by (simp add: create_defs bind_defs pattern_defs sample_defs)
  from create_user_write_through [OF h, of ann] h show ?thesis by blast
qed

section \<open>Validation and store access (C5)\<close>

text \<open>
  C5, as stated, fails for update: the email of a patch is validated only after the row
  has been read from the Record Store. Here the validation failure is reported after a
  \<open>DbQuery\<close>.
\<close>

theorem update_validation_after_store_read:
  "update_user DbUp ''u1'' (JObj [(''email'', JStr ''not-an-email'')])
      \<lparr>db = [ann], cache = Map.empty\<rparr>
   = (Resp 400 (Error ''Invalid email''), [DbQuery ''u1''], \<lparr>db = [ann], cache = Map.empty\<rparr>)"
  by (simp add: update_defs pattern_defs sample_defs)

text \<open>
  C5, amended. A validation failure of create is reported before any access to either
  store. On update only the check for a missing body comes before every access; the
  fields are validated after the row has been looked up, so the failure is reported
  after that one read and with no other access. Delete reports no validation failure.
  In every case both stores are unchanged.
\<close>

theorem validation_failure_leaves_stores:
  "(create_user env new_id data w = (Resp 400 (Error m), tr, w') \<and> m \<noteq> ''Email already exists''
      \<longrightarrow> tr = [] \<and> w' = w)
   \<and> (update_user env2 i data2 w2 = (Resp 400 (Error m2), tr2, w2') \<and> m2 \<noteq> ''Email already exists''
      \<longrightarrow> w2' = w2 \<and> tr2 = (if m2 = ''No data provided'' then [] else [DbQuery i]))
   \<and> (\<forall>b. fst (delete_user env3 i3 w3) \<noteq> Resp 400 b)"
proof (intro conjI impI allI)
  assume "create_user env new_id data w = (Resp 400 (Error m), tr, w') \<and> m \<noteq> ''Email already exists''"
  then show "tr = []" and "w' = w" using create_user_400 by blast+
next
  assume a: "update_user env2 i data2 w2 = (Resp 400 (Error m2), tr2, w2') \<and> m2 \<noteq> ''Email already exists''"
  then show "w2' = w2" using update_user_400 by blast
  from a have "update_user env2 i data2 w2 = (Resp 400 (Error m2), tr2, w2')" by simp
  from update_user_400 [OF this] a
  show "tr2 = (if m2 = ''No data provided'' then [] else [DbQuery i])" by auto
next
  fix b
  show "fst (delete_user env3 i3 w3) \<noteq> Resp 400 b"
    by (auto simp: delete_user_def split: option.splits commit_result.splits)
qed

text \<open>A create without email and age, and an update with age 0 of an existing id.\<close>

theorem validation_failure_leaves_stores_witness:
  "create_user DbUp ''u1'' (JObj [(''name'', JStr ''Ann'')]) empty_world
     = (Resp 400 (Error ''Missing fields''), [], empty_world)
   \<and> update_user DbUp ''u1'' (JObj [(''age'', JInt 0)]) \<lparr>db = [ann], cache = Map.empty\<rparr>
     = (Resp 400 (Error ''Age must be a positive integer''), [DbQuery ''u1''],
        \<lparr>db = [ann], cache = Map.empty\<rparr>)
   \<and> [DbQuery ''u1''] = (if ''Age must be a positive integer'' = ''No data provided'' then []
                         else [DbQuery ''u1''])"
proof -
  have h1: "create_user DbUp ''u1'' (JObj [(''name'', JStr ''Ann'')]) empty_world
     = (Resp 400 (Error ''Missing fields''), [], empty_world)
     \<and> ''Missing fields'' \<noteq> ''Email already exists''"
    by (simp add: create_defs)
  have h2: "update_user DbUp ''u1'' (JObj [(''age'', JInt 0)]) \<lparr>db = [ann], cache = Map.empty\<rparr>
     = (Resp 400 (Error ''Age must be a positive integer''), [DbQuery ''u1''],
        \<lparr>db = [ann], cache = Map.empty\<rparr>)
     \<and> ''Age must be a positive integer'' \<noteq> ''Email already exists''"
    by (simp add: update_defs sample_defs)
  from validation_failure_leaves_stores
         [where env = DbUp and new_id = "''u1''" and data = "JObj [(''name'', JStr ''Ann'')]"
            and w = empty_world and m = "''Missing fields''" and tr = "[]" and w' = empty_world
            and ?env2.0 = DbUp and i = "''u1''" and ?data2.0 = "JObj [(''age'', JInt 0)]"
            and ?w2.0 = "\<lparr>db = [ann], cache = Map.empty\<rparr>"
            and ?m2.0 = "''Age must be a positive integer''" and ?tr2.0 = "[DbQuery ''u1'']"
            and ?w2' = "\<lparr>db = [ann], cache = Map.empty\<rparr>"]
       h1 h2
  show ?thesis by blast
qed

section \<open>Duplicate email (C6)\<close>

text \<open>
  What holds of a duplicate: a create that passes validation, whose name and age can be
  bound, and whose email a committed row has, is answered 400 \<open>Email already exists\<close> when
  the database is working, and 500 \<open>Database error\<close> when the statement fails for another
  reason; so is an update whose patch carries the email of a row of another id. Either
  way the state is unchanged.
\<close>

lemma duplicate_email_create:
  assumes "create_fields data = Ok (n, em, a)" and "bind_name n = Bound t" and "fits_int64 a"
      and "em \<in> set (map email (db w))"
  shows "create_user DbUp new_id data w
           = (Resp 400 (Error ''Email already exists''), [DbAdd new_id, DbCommit, DbRollback], w)"
    and "create_user DbFailing new_id data w
           = (Resp 500 (Error ''Database error''), [DbAdd new_id, DbCommit, DbRollback], w)"
  using assms
  by (simp_all add: create_user_def commit_insert_def bind_age_def split: option.splits)

lemma duplicate_email_update:
  assumes "truthy data" and "find_user i (db w) = Some old" and "update_fields data = Ok c"
      and "\<forall>v. new_name c = Some v \<longrightarrow> (\<exists>t. bind_name v = Bound t)"
      and "\<forall>a. new_age c = Some a \<longrightarrow> fits_int64 a"
      and "new_email c = Some em" and "other \<in> set (db w)" and "id_col other \<noteq> i"
      and "email other = em"
  shows "update_user DbUp i data w
           = (Resp 400 (Error ''Email already exists''), [DbQuery i, DbCommit, DbRollback], w)"
    and "update_user DbFailing i data w
           = (Resp 500 (Error ''Database error''), [DbQuery i, DbCommit, DbRollback], w)"
proof -
  have idold: "id_col old = i" using find_user_id [OF assms(2)] .
  from assms(7,8) idold have "other \<in> set (filter (\<lambda>r. id_col r \<noteq> id_col old) (db w))"
    by simp
  then have "email other \<in> set (map email (filter (\<lambda>r. id_col r \<noteq> id_col old) (db w)))"
    by (simp only: set_map) (rule imageI)
  with assms(9) have dup: "em \<in> set (map email (filter (\<lambda>r. id_col r \<noteq> id_col old) (db w)))"
    by simp
  obtain t where nm: "(case new_name c of None \<Rightarrow> Bound (Some (name old)) | Some v \<Rightarrow> bind_name v)
                        = Bound t"
    using assms(4) by (cases "new_name c") auto
  obtain x where ag: "(case new_age c of None \<Rightarrow> Bound (age old) | Some a \<Rightarrow> bind_age a) = Bound x"
    using assms(5) by (cases "new_age c") (auto simp: bind_age_def)
  show "update_user DbUp i data w
           = (Resp 400 (Error ''Email already exists''), [DbQuery i, DbCommit, DbRollback], w)"
    using assms(1,2,3,6) dup nm ag
    by (simp add: update_user_def commit_update_def split: option.splits)
  show "update_user DbFailing i data w
           = (Resp 500 (Error ''Database error''), [DbQuery i, DbCommit, DbRollback], w)"
    using assms(1,2,3) nm ag
    by (simp add: update_user_def commit_update_def)
qed

text \<open>
  C6. The claim tells the answer to a duplicate email apart from the answer to every other
  storage failure. The handlers give the answer 400 \<open>Email already exists\<close> to every
  \<open>IntegrityError\<close>: a create and an update with the name \<open>null\<close>, which the \<open>name\<close>
  column refuses, get it although no row has the email of the request (the table is
  empty in the first case, and the patch carries no email in the second).
\<close>

theorem null_name_answered_as_duplicate_email:
  "create_user DbUp ''u1''
      (JObj [(''name'', JNull), (''email'', JStr ok_email), (''age'', JInt 30)]) empty_world
     = (Resp 400 (Error ''Email already exists''), [DbAdd ''u1'', DbCommit, DbRollback], empty_world)
   \<and> db empty_world = []
   \<and> update_user DbUp ''u1'' (JObj [(''name'', JNull)]) \<lparr>db = [ann], cache = Map.empty\<rparr>
     = (Resp 400 (Error ''Email already exists''), [DbQuery ''u1'', DbCommit, DbRollback],
        \<lparr>db = [ann], cache = Map.empty\<rparr>)"
  by (simp add: create_defs update_defs bind_defs pattern_defs sample_defs)

section \<open>Age validation (C7)\<close>

text \<open>
  C7. The claim has every value that is not an integer rejected, booleans included. The
  test of the source is \<open>isinstance(v, int)\<close>, which holds of \<open>True\<close>, and \<open>True <= 0\<close> is
  false: a create and an update with age \<open>true\<close> are accepted, and the row has age 1.
\<close>

theorem boolean_age_accepted:
  "create_user DbUp ''u1''
      (JObj [(''name'', JStr ''Ann''), (''email'', JStr ok_email), (''age'', JBool True)]) empty_world
   = (Resp 201 (Entity \<lparr>id_col = ''u1'', name = Text ''Ann'', email = ok_email, age = 1\<rparr>),
      [DbAdd ''u1'', DbCommit, CacheSetex (cache_key ''u1'') 300],
      \<lparr>db = [\<lparr>id_col = ''u1'', name = Text ''Ann'', email = ok_email, age = 1\<rparr>],
       cache = [cache_key ''u1'' \<mapsto> (300, \<lparr>id_col = ''u1'', name = Text ''Ann'', email = ok_email, age = 1\<rparr>)]\<rparr>)
   \<and> fst (update_user DbUp ''u1'' (JObj [(''age'', JBool True)]) \<lparr>db = [ann], cache = Map.empty\<rparr>)
     = Resp 200 (Entity (ann\<lparr>age := 1\<rparr>))"
  by (simp add: create_defs update_defs bind_defs pattern_defs sample_defs)

section \<open>Delete (C8)\<close>

text \<open>
  C8. Deleting an existing id removes its row, deletes its cache entry whether or not there
  was one (with none, the cache is unchanged), and answers 200; a second delete of the
  id then answers 404. When the commit fails the answer is 500 and the state, the
  cache included, is unchanged. Deleting an id with no row answers 404.
\<close>

theorem delete_user_then_not_found:
  "(find_user i (db w) = Some r \<longrightarrow>
      delete_user DbUp i w
        = (Resp 200 (Message ''User deleted successfully''),
           [DbQuery i, DbDelete i, DbCommit, CacheDelete (cache_key i)],
           w\<lparr>db := filter (\<lambda>x. id_col x \<noteq> i) (db w), cache := (cache w)(cache_key i := None)\<rparr>)
      \<and> find_user i (db (snd (snd (delete_user DbUp i w)))) = None
      \<and> cache (snd (snd (delete_user DbUp i w))) (cache_key i) = None
      \<and> (cache w (cache_key i) = None \<longrightarrow> cache (snd (snd (delete_user DbUp i w))) = cache w)
      \<and> fst (delete_user env (i) (snd (snd (delete_user DbUp i w))))
          = Resp 404 (Error ''User not found'')
      \<and> delete_user DbFailing i w
          = (Resp 500 (Error ''Database error''),
             [DbQuery i, DbDelete i, DbCommit, DbRollback], w))
   \<and> (find_user i2 (db w2) = None \<longrightarrow>
        delete_user env2 i2 w2 = (Resp 404 (Error ''User not found''), [DbQuery i2], w2))"
proof (intro conjI impI)
  assume f: "find_user i (db w) = Some r"
  have idr: "id_col r = i" using find_user_id [OF f] .
  show d: "delete_user DbUp i w
        = (Resp 200 (Message ''User deleted successfully''),
           [DbQuery i, DbDelete i, DbCommit, CacheDelete (cache_key i)],
           w\<lparr>db := filter (\<lambda>x. id_col x \<noteq> i) (db w), cache := (cache w)(cache_key i := None)\<rparr>)"
    using f idr by (simp add: delete_user_def commit_delete_def)
  show "find_user i (db (snd (snd (delete_user DbUp i w)))) = None"
    by (simp add: d find_user_filter)
  show "cache (snd (snd (delete_user DbUp i w))) (cache_key i) = None"
    by (simp add: d)
  show "fst (delete_user env i (snd (snd (delete_user DbUp i w)))) = Resp 404 (Error ''User not found'')"
    by (subst d) (simp add: delete_user_def find_user_filter)
  show "delete_user DbFailing i w
          = (Resp 500 (Error ''Database error''), [DbQuery i, DbDelete i, DbCommit, DbRollback], w)"
    using f idr by (simp add: delete_user_def commit_delete_def)
  assume "cache w (cache_key i) = None"
  then show "cache (snd (snd (delete_user DbUp i w))) = cache w"
    by (simp add: d fun_upd_idem)
next
  assume "find_user i2 (db w2) = None"
  then show "delete_user env2 i2 w2 = (Resp 404 (Error ''User not found''), [DbQuery i2], w2)"
    by (simp add: delete_user_def)
qed

text \<open>Delete of a cached row, a second delete, a failing commit, and an unknown id.\<close>

theorem delete_user_then_not_found_witness:
  "delete_user DbUp ''u1'' \<lparr>db = [ann, bob], cache = [cache_key ''u1'' \<mapsto> (300, ann)]\<rparr>
     = (Resp 200 (Message ''User deleted successfully''),
        [DbQuery ''u1'', DbDelete ''u1'', DbCommit, CacheDelete (cache_key ''u1'')],
        \<lparr>db = [bob], cache = Map.empty\<rparr>)
   \<and> fst (delete_user DbUp ''u1'' \<lparr>db = [bob], cache = Map.empty\<rparr>)
       = Resp 404 (Error ''User not found'')
   \<and> delete_user DbFailing ''u1'' \<lparr>db = [ann, bob], cache = [cache_key ''u1'' \<mapsto> (300, ann)]\<rparr>
       = (Resp 500 (Error ''Database error''),
          [DbQuery ''u1'', DbDelete ''u1'', DbCommit, DbRollback],
          \<lparr>db = [ann, bob], cache = [cache_key ''u1'' \<mapsto> (300, ann)]\<rparr>)
   \<and> delete_user DbUp ''u9'' empty_world
       = (Resp 404 (Error ''User not found''), [DbQuery ''u9''], empty_world)"
proof -
  let ?w = "\<lparr>db = [ann, bob], cache = [cache_key ''u1'' \<mapsto> (300, ann)]\<rparr>"
  have h1: "find_user ''u1'' (db ?w) = Some ann"
    by (simp add: find_user_def ann_def)
  have h2: "find_user ''u9'' (db empty_world) = None"
    by (simp add: find_user_def empty_world_def)
  have e: "?w\<lparr>db := filter (\<lambda>x. id_col x \<noteq> ''u1'') (db ?w), cache := (cache ?w)(cache_key ''u1'' := None)\<rparr>
           = \<lparr>db = [bob], cache = Map.empty\<rparr>"
    by (simp add: ann_def bob_def)
  note t = delete_user_then_not_found
         [where i = "''u1''" and w = ?w and r = ann and env = DbUp
            and ?i2.0 = "''u9''" and ?w2.0 = empty_world and ?env2.0 = DbUp, unfolded e]
  from t h1 have d: "delete_user DbUp ''u1'' ?w
     = (Resp 200 (Message ''User deleted successfully''),
        [DbQuery ''u1'', DbDelete ''u1'', DbCommit, CacheDelete (cache_key ''u1'')],
        \<lparr>db = [bob], cache = Map.empty\<rparr>)"
    by blast
  from t h1 have "fst (delete_user DbUp ''u1'' (snd (snd (delete_user DbUp ''u1'' ?w))))
       = Resp 404 (Error ''User not found'')"
    by blast
  then have d2: "fst (delete_user DbUp ''u1'' \<lparr>db = [bob], cache = Map.empty\<rparr>)
       = Resp 404 (Error ''User not found'')"
    by (simp add: d)
  from t h1 h2 d d2 show ?thesis by blast
qed

section \<open>Names (C9)\<close>

text \<open>
  C9, as stated, fails: neither handler looks at the name, and a create with the empty
  name is accepted.
\<close>

theorem empty_name_accepted:
  "fst (create_user DbUp ''u1''
          (JObj [(''name'', JStr []), (''email'', JStr ok_email), (''age'', JInt 30)]) empty_world)
   = Resp 201 (Entity \<lparr>id_col = ''u1'', name = Text [], email = ok_email, age = 30\<rparr>)"
  by (simp add: create_defs bind_defs pattern_defs sample_defs)

text \<open>
  C9, amended. Every entity accepted by a create or an update has a name that is text,
  which may be empty: the name is text, established at creation and preserved by every
  update. The name of a row is text by its type; the theorem says which text it is. At
  creation it is the one the name column holds for the name of the request, which
  therefore is not null, a list or an object. After an update it is the name of the
  old row, or the one the column holds for the name of the patch. The accepted entity
  is a row of the store afterwards.
\<close>

theorem accepted_name_is_text:
  "(create_user env new_id data w = (Resp 201 (Entity u), tr, w') \<longrightarrow>
      (\<exists>n. getitem data ''name'' = Inr n \<and> bind_name n = Bound (Some (name u))
            \<and> n \<noteq> JNull \<and> (\<forall>xs. n \<noteq> JArr xs) \<and> (\<forall>kvs. n \<noteq> JObj kvs))
      \<and> u \<in> set (db w'))
   \<and> (update_user env2 i data2 w2 = (Resp 200 (Entity u2), tr2, w2') \<longrightarrow>
      u2 \<in> set (db w2')
      \<and> (\<forall>old. find_user i (db w2) = Some old \<longrightarrow>
            (case getitem data2 ''name'' of
               Inr v \<Rightarrow> bind_name v = Bound (Some (name u2))
             | Inl e \<Rightarrow> name u2 = name old)))"
proof (intro conjI impI allI)
  assume a: "create_user env new_id data w = (Resp 201 (Entity u), tr, w')"
  from create_user_cases [OF a] obtain n em a' where s:
    "create_fields data = Ok (n, em, a')"
    "commit_insert env (db w) new_id n em a' = Committed (db w') u"
    by auto
  note cm = commit_insert_Committed [OF s(2)]
  have "getitem data ''name'' = Inr n" using create_fields_Ok [OF s(1)] by simp
  moreover have "n \<noteq> JNull \<and> (\<forall>xs. n \<noteq> JArr xs) \<and> (\<forall>kvs. n \<noteq> JObj kvs)"
    using cm(2) by (cases n) auto
  ultimately show "\<exists>n. getitem data ''name'' = Inr n \<and> bind_name n = Bound (Some (name u))
            \<and> n \<noteq> JNull \<and> (\<forall>xs. n \<noteq> JArr xs) \<and> (\<forall>kvs. n \<noteq> JObj kvs)"
    using cm(2) by blast
  show "u \<in> set (db w')" using cm(8) by simp
next
  assume a: "update_user env2 i data2 w2 = (Resp 200 (Entity u2), tr2, w2')"
  from update_user_cases [OF a] obtain old c where s:
    "find_user i (db w2) = Some old" "update_fields data2 = Ok c"
    "commit_update env2 (db w2) old c = Committed (db w2') u2"
    by auto
  note cm = commit_update_Committed [OF s(3)]
  have idu: "id_col u2 = i" using cm(2) find_user_id [OF s(1)] by simp
  have "db w2' = map (\<lambda>r. if id_col r = i then u2 else r) (db w2)"
    using cm(6) find_user_id [OF s(1)] by simp
  then have "find_user i (db w2') = Some u2"
    using find_user_replace [OF s(1) idu] by simp
  then show "u2 \<in> set (db w2')" by (rule find_user_mem)
  fix old' assume "find_user i (db w2) = Some old'"
  with s(1) have oo: "old = old'" by simp
  show "case getitem data2 ''name'' of
          Inr v \<Rightarrow> bind_name v = Bound (Some (name u2))
        | Inl e \<Rightarrow> name u2 = name old'"
    using cm(3) update_fields_Ok(1) [OF s(2)] oo by (simp split: sum.splits)
qed

text \<open>A create with a number for the name, and an update that sets the empty name.\<close>

theorem accepted_name_is_text_witness:
  "create_user DbUp ''u1''
      (JObj [(''name'', JInt 123), (''email'', JStr ok_email), (''age'', JInt 30)]) empty_world
     = (Resp 201 (Entity (ann\<lparr>name := Text ''123''\<rparr>)),
        [DbAdd ''u1'', DbCommit, CacheSetex (cache_key ''u1'') 300],
        \<lparr>db = [ann\<lparr>name := Text ''123''\<rparr>],
         cache = [cache_key ''u1'' \<mapsto> (300, ann\<lparr>name := Text ''123''\<rparr>)]\<rparr>)
   \<and> ann\<lparr>name := Text ''123''\<rparr>
       \<in> set (db \<lparr>db = [ann\<lparr>name := Text ''123''\<rparr>],
                  cache = [cache_key ''u1'' \<mapsto> (300, ann\<lparr>name := Text ''123''\<rparr>)]\<rparr>)
   \<and> update_user DbUp ''u1'' (JObj [(''name'', JStr [])]) \<lparr>db = [ann], cache = Map.empty\<rparr>
     = (Resp 200 (Entity (ann\<lparr>name := Text []\<rparr>)),
        [DbQuery ''u1'', DbCommit, CacheDelete (cache_key ''u1'')],
        \<lparr>db = [ann\<lparr>name := Text []\<rparr>], cache = Map.empty\<rparr>)
   \<and> ann\<lparr>name := Text []\<rparr> \<in> set (db \<lparr>db = [ann\<lparr>name := Text []\<rparr>], cache = Map.empty\<rparr>)"
proof -
  have h1: "create_user DbUp ''u1''
      (JObj [(''name'', JInt 123), (''email'', JStr ok_email), (''age'', JInt 30)]) empty_world
     = (Resp 201 (Entity (ann\<lparr>name := Text ''123''\<rparr>)),
        [DbAdd ''u1'', DbCommit, CacheSetex (cache_key ''u1'') 300],
        \<lparr>db = [ann\<lparr>name := Text ''123''\<rparr>],
         cache = [cache_key ''u1'' \<mapsto> (300, ann\<lparr>name := Text ''123''\<rparr>)]\<rparr>)"
    by (simp add: create_defs bind_defs pattern_defs sample_defs)
  have h2: "update_user DbUp ''u1'' (JObj [(''name'', JStr [])]) \<lparr>db = [ann], cache = Map.empty\<rparr>
     = (Resp 200 (Entity (ann\<lparr>name := Text []\<rparr>)),
        [DbQuery ''u1'', DbCommit, CacheDelete (cache_key ''u1'')],
        \<lparr>db = [ann\<lparr>name := Text []\<rparr>], cache = Map.empty\<rparr>)"
    by (simp add: update_defs bind_defs sample_defs cache_key_def)
  from accepted_name_is_text
         [where env = DbUp and new_id = "''u1''"
            and data = "JObj [(''name'', JInt 123), (''email'', JStr ok_email), (''age'', JInt 30)]"
            and w = empty_world
            and u = "ann\<lparr>name := Text ''123''\<rparr>"
            and tr = "[DbAdd ''u1'', DbCommit, CacheSetex (cache_key ''u1'') 300]"
            and w' = "\<lparr>db = [ann\<lparr>name := Text ''123''\<rparr>],
                       cache = [cache_key ''u1'' \<mapsto> (300, ann\<lparr>name := Text ''123''\<rparr>)]\<rparr>"
            and ?env2.0 = DbUp and i = "''u1''" and ?data2.0 = "JObj [(''name'', JStr [])]"
            and ?w2.0 = "\<lparr>db = [ann], cache = Map.empty\<rparr>"
            and ?u2.0 = "ann\<lparr>name := Text []\<rparr>"
            and ?tr2.0 = "[DbQuery ''u1'', DbCommit, CacheDelete (cache_key ''u1'')]"
            and ?w2' = "\<lparr>db = [ann\<lparr>name := Text []\<rparr>], cache = Map.empty\<rparr>"]
       h1 h2
  show ?thesis by blast
qed

section \<open>Order of the checks on update (C10)\<close>

text \<open>
  C10. An update with a body that is not empty and an id no row has is answered 404,
  whatever the fields of the body; so an answer 400 \<open>Invalid email\<close> or
  \<open>Age must be a positive integer\<close> to an update means that the id has a row.
\<close>

theorem update_user_checks_existence_first:
  "(truthy data \<and> find_user i (db w) = None \<longrightarrow>
      update_user env i data w = (Resp 404 (Error ''User not found''), [DbQuery i], w))
   \<and> (update_user env2 i2 data2 w2 = (Resp 400 (Error m), tr, w2')
        \<and> (m = ''Invalid email'' \<or> m = ''Age must be a positive integer'')
      \<longrightarrow> (\<exists>old. find_user i2 (db w2) = Some old))"
proof (intro conjI impI)
  assume "truthy data \<and> find_user i (db w) = None"
  then show "update_user env i data w = (Resp 404 (Error ''User not found''), [DbQuery i], w)"
    by (simp add: update_user_def)
next
  assume a: "update_user env2 i2 data2 w2 = (Resp 400 (Error m), tr, w2')
        \<and> (m = ''Invalid email'' \<or> m = ''Age must be a positive integer'')"
  then have "update_user env2 i2 data2 w2 = (Resp 400 (Error m), tr, w2')" by simp
  from update_user_400 [OF this] a show "\<exists>old. find_user i2 (db w2) = Some old" by auto
qed

text \<open>An unknown id with an invalid email and age, and an existing id with age 0.\<close>

theorem update_user_checks_existence_first_witness:
  "update_user DbUp ''u9'' (JObj [(''email'', JStr ''not-an-email''), (''age'', JInt 0)])
      \<lparr>db = [ann], cache = Map.empty\<rparr>
     = (Resp 404 (Error ''User not found''), [DbQuery ''u9''], \<lparr>db = [ann], cache = Map.empty\<rparr>)
   \<and> update_user DbUp ''u1'' (JObj [(''age'', JInt 0)]) \<lparr>db = [ann], cache = Map.empty\<rparr>
     = (Resp 400 (Error ''Age must be a positive integer''), [DbQuery ''u1''],
        \<lparr>db = [ann], cache = Map.empty\<rparr>)
   \<and> (\<exists>old. find_user ''u1'' (db \<lparr>db = [ann], cache = Map.empty\<rparr>) = Some old)"
proof -
  have h1: "truthy (JObj [(''email'', JStr ''not-an-email''), (''age'', JInt 0)])
            \<and> find_user ''u9'' (db \<lparr>db = [ann], cache = Map.empty\<rparr>) = None"
    by (simp add: find_user_def ann_def)
  have h2: "update_user DbUp ''u1'' (JObj [(''age'', JInt 0)]) \<lparr>db = [ann], cache = Map.empty\<rparr>
     = (Resp 400 (Error ''Age must be a positive integer''), [DbQuery ''u1''],
        \<lparr>db = [ann], cache = Map.empty\<rparr>)"
    by (simp add: update_defs sample_defs)
  from update_user_checks_existence_first
         [where env = DbUp and i = "''u9''"
            and data = "JObj [(''email'', JStr ''not-an-email''), (''age'', JInt 0)]"
            and w = "\<lparr>db = [ann], cache = Map.empty\<rparr>"
            and ?env2.0 = DbUp and ?i2.0 = "''u1''" and ?data2.0 = "JObj [(''age'', JInt 0)]"
            and ?w2.0 = "\<lparr>db = [ann], cache = Map.empty\<rparr>"
            and m = "''Age must be a positive integer''" and tr = "[DbQuery ''u1'']"
            and ?w2' = "\<lparr>db = [ann], cache = Map.empty\<rparr>"]
       h1 h2
  show ?thesis by blast
qed

end
